theory Spec2Isabelle
  imports Complex_Main "HOL-Library.Sublist"
begin

section \<open>Python values\<close>

text \<open>
  The engine is \<^verbatim>\<open>src/src/simulation_engine.py\<close>.  Conventions of the embedding:
  \<^item> a Python \<^verbatim>\<open>str\<close> is a \<open>string\<close> whose characters are read as code points below 256
    (so \<open>length\<close> counts what Python's \<^verbatim>\<open>len\<close> counts);
  \<^item> a Python \<^verbatim>\<open>int\<close> is an \<open>int\<close>;
  \<^item> a \<^verbatim>\<open>Decimal\<close> is the rational it denotes (the library divides with 999 digits,
    which is exact for the numbers that pass its range check);
  \<^item> a \<^verbatim>\<open>float\<close> is the rational that the binary64 number denotes: every conversion
    and every operation on floats rounds to the nearest such number (\<open>to_float\<close>);
  \<^item> a raised \<^verbatim>\<open>Exception\<close> is \<open>Inl m\<close>, where \<open>m\<close> is what \<^verbatim>\<open>str(e)\<close> gives; every
    \<^verbatim>\<open>raise\<close> of the source and of the library calls it makes is such a branch.
\<close>

type_synonym exn = string

subsection \<open>\<^verbatim>\<open>str.strip\<close>, \<^verbatim>\<open>str.startswith\<close>, \<^verbatim>\<open>str(int)\<close>, \<^verbatim>\<open>repr(str)\<close>\<close>

text \<open>The code points below 256 for which \<^verbatim>\<open>str.isspace\<close> holds.\<close>

definition py_whitespace :: "char list" where
  "py_whitespace =
     [CHR 0x09, CHR 0x0A, CHR 0x0B, CHR 0x0C, CHR 0x0D, CHR 0x1C, CHR 0x1D, CHR 0x1E,
      CHR 0x1F, CHR 0x20, CHR 0x85, CHR 0xA0]"

definition isspace :: "char \<Rightarrow> bool" where
  "isspace c = (c \<in> set py_whitespace)"

definition strip :: "string \<Rightarrow> string" where
  "strip s = rev (dropWhile isspace (rev (dropWhile isspace s)))"

definition startswith :: "string \<Rightarrow> string \<Rightarrow> bool" where
  "startswith s p = (take (length p) s = p)"

fun str_nat :: "nat \<Rightarrow> string" where
  "str_nat n =
     (if n < 10 then [''0123456789'' ! n]
      else str_nat (n div 10) @ [''0123456789'' ! (n mod 10)])"

declare str_nat.simps [simp del]

definition str_int :: "int \<Rightarrow> string" where
  "str_int i = (if i < 0 then CHR ''-'' # str_nat (nat (- i)) else str_nat (nat i))"

text \<open>
  \<^verbatim>\<open>repr\<close> of a string: single quotes, unless the string has a single and no double
  quote; the quote in use and the backslash are escaped, tab, newline and carriage
  return are written with their letters, and the other code points that are not
  printable (below 32, 127 to 160, and 173) as \<^verbatim>\<open>\xNN\<close>.
\<close>

definition hex2 :: "nat \<Rightarrow> string" where
  "hex2 n = [''0123456789abcdef'' ! (n div 16), ''0123456789abcdef'' ! (n mod 16)]"

definition repr_char :: "char \<Rightarrow> char \<Rightarrow> string" where
  "repr_char quote c =
     (let n = (of_char c :: nat) in
      if c = quote \<or> c = CHR 0x5C then [CHR 0x5C, c]
      else if c = CHR 0x09 then [CHR 0x5C, CHR ''t'']
      else if c = CHR 0x0A then [CHR 0x5C, CHR ''n'']
      else if c = CHR 0x0D then [CHR 0x5C, CHR ''r'']
      else if n < 32 \<or> (127 \<le> n \<and> n \<le> 160) \<or> n = 173
        then [CHR 0x5C, CHR ''x''] @ hex2 n
      else [c])"

definition py_repr :: "string \<Rightarrow> string" where
  "py_repr s =
     (let quote = (if CHR 0x27 \<in> set s \<and> CHR 0x22 \<notin> set s then CHR 0x22 else CHR 0x27)
      in quote # concat (map (repr_char quote) s) @ [quote])"

subsection \<open>\<^verbatim>\<open>int(s)\<close> and \<^verbatim>\<open>int(s, 16)\<close>\<close>

text \<open>
  The builtin \<^verbatim>\<open>int\<close> on a string, as CPython 3.11 does it (\<^verbatim>\<open>PyLong_FromString\<close>):
  \<^item> the whitespace around the number is skipped; for \<^verbatim>\<open>int\<close> that is tab to carriage
    return, space, and the code points 0x85 and 0xA0, but not 0x1C to 0x1F;
  \<^item> an optional sign follows, and for base 16 an optional \<^verbatim>\<open>0x\<close> or \<^verbatim>\<open>0X\<close>, after which
    one underscore may stand;
  \<^item> the digits of the base are scanned, with single underscores between them; a
    leading, a doubled or a trailing underscore is an error;
  \<^item> for a base that is not a power of two, more than 4300 digits are refused (the
    default of \<^verbatim>\<open>sys.set_int_max_str_digits\<close>);
  \<^item> nothing may follow the digits.
  The \<^verbatim>\<open>ValueError\<close> shows at most 200 characters of the \<^verbatim>\<open>repr\<close> of the string.
\<close>

definition int_whitespace :: "char list" where
  "int_whitespace =
     [CHR 0x09, CHR 0x0A, CHR 0x0B, CHR 0x0C, CHR 0x0D, CHR 0x20, CHR 0x85, CHR 0xA0]"

definition int_strip :: "string \<Rightarrow> string" where
  "int_strip s =
     rev (dropWhile (\<lambda>c. c \<in> set int_whitespace)
            (rev (dropWhile (\<lambda>c. c \<in> set int_whitespace) s)))"

definition digit_value :: "char \<Rightarrow> nat option" where
  "digit_value c =
     (let n = (of_char c :: nat) in
      if 48 \<le> n \<and> n \<le> 57 then Some (n - 48)
      else if 97 \<le> n \<and> n \<le> 122 then Some (n - 87)
      else if 65 \<le> n \<and> n \<le> 90 then Some (n - 55)
      else None)"

definition digit_in :: "nat \<Rightarrow> char \<Rightarrow> nat option" where
  "digit_in base c =
     (case digit_value c of
        None \<Rightarrow> None
      | Some v \<Rightarrow> if v < base then Some v else None)"

text \<open>
  The scan of the digits: \<open>prev\<close> tells whether the last character was an underscore,
  \<open>count\<close> is the number of digits seen and \<open>acc\<close> their value.  The result is the
  count, the value and what follows the digits; \<open>None\<close> is an underscore out of place.
\<close>

fun scan_digits :: "nat \<Rightarrow> bool \<Rightarrow> nat \<Rightarrow> nat \<Rightarrow> string \<Rightarrow> (nat \<times> nat \<times> string) option" where
  "scan_digits base prev count acc [] = (if prev then None else Some (count, acc, []))"
| "scan_digits base prev count acc (c # cs) =
     (if c = CHR ''_'' then
        (if prev then None else scan_digits base True count acc cs)
      else
        (case digit_in base c of
           Some v \<Rightarrow> scan_digits base False (Suc count) (acc * base + v) cs
         | None \<Rightarrow> if prev then None else Some (count, acc, c # cs)))"

definition invalid_literal :: "nat \<Rightarrow> string \<Rightarrow> exn" where
  "invalid_literal base s =
     ''invalid literal for int() with base '' @ str_nat base @ '': '' @ take 200 (py_repr s)"

definition exceeds_limit :: "nat \<Rightarrow> exn" where
  "exceeds_limit count =
     ''Exceeds the limit (4300 digits) for integer string conversion: value has '' @
     str_nat count @ '' digits; use sys.set_int_max_str_digits() to increase the limit''"

text \<open>
  The digits \<open>v\<close> of the string \<open>s\<close>, after the sign and the prefix of the base.
\<close>

definition parse_magnitude :: "nat \<Rightarrow> string \<Rightarrow> string \<Rightarrow> exn + nat" where
  "parse_magnitude base s v =
     (if startswith v ''_'' then Inl (invalid_literal base s)
      else
        (case scan_digits base False 0 0 v of
           None \<Rightarrow> Inl (invalid_literal base s)
         | Some (count, n, rest) \<Rightarrow>
             if count = 0 then Inl (invalid_literal base s)
             else if base \<notin> {2, 4, 8, 16, 32} \<and> 4300 < count
               then Inl (exceeds_limit count)
             else if rest \<noteq> [] then Inl (invalid_literal base s)
             else Inr n))"

definition py_int :: "nat \<Rightarrow> string \<Rightarrow> exn + int" where
  "py_int base s =
     (let t = int_strip s;
          sgn = (if startswith t ''-'' then - 1 else 1 :: int);
          u = (if startswith t ''-'' \<or> startswith t ''+'' then drop 1 t else t);
          v = (if base = 16 \<and> (startswith u ''0x'' \<or> startswith u ''0X'')
               then (if startswith (drop 2 u) ''_'' then drop 3 u else drop 2 u)
               else u)
      in case parse_magnitude base s v of
           Inl e \<Rightarrow> Inl e
         | Inr n \<Rightarrow> Inr (sgn * int n))"

subsection \<open>Floats\<close>

text \<open>
  Rounding a rational to the nearest integer, ties to the even one.
\<close>

definition round_half_even :: "rat \<Rightarrow> int" where
  "round_half_even y =
     (let f = \<lfloor>y\<rfloor>;
          d = y - of_int f
      in if d < 1 / 2 then f
         else if 1 / 2 < d then f + 1
         else if even f then f else f + 1)"

text \<open>
  The spacing of the binary64 numbers around a positive \<open>x\<close>: the power of two \<open>u\<close> with
  \<open>2 ^ 52 \<le> x / u < 2 ^ 53\<close>, searched from \<open>u\<close> in at most \<open>n\<close> steps.
\<close>

fun ulp :: "nat \<Rightarrow> rat \<Rightarrow> rat \<Rightarrow> rat" where
  "ulp 0 x u = u"
| "ulp (Suc n) x u =
     (if x / u < 2 ^ 52 then ulp n x (u / 2)
      else if 2 ^ 53 \<le> x / u then ulp n x (u * 2)
      else u)"

declare ulp.simps [simp del]

text \<open>
  The binary64 number nearest to a rational, ties to the even mantissa: what
  \<^verbatim>\<open>float(d)\<close> gives for a \<^verbatim>\<open>Decimal\<close>, and how the result of an operation on floats is
  rounded.  The 1200 steps cover the normal range of binary64; overflow and the
  subnormal numbers are not modelled (every number that the engine converts lies
  between \<open>10 ^ - 18\<close> and \<open>3000 * 2 ^ 256\<close>).
\<close>

definition to_float :: "rat \<Rightarrow> rat" where
  "to_float x =
     (if x = 0 then 0
      else (let u = ulp 1200 \<bar>x\<bar> 1 in of_int (round_half_even (x / u)) * u))"

text \<open>
  \<^verbatim>\<open>round(x, ndigits)\<close> of a float: the decimal with \<open>ndigits\<close> places nearest to the exact
  value of \<open>x\<close>, ties to even, converted back to a float.
\<close>

definition py_round :: "rat \<Rightarrow> nat \<Rightarrow> rat" where
  "py_round x ndigits = to_float (of_int (round_half_even (x * 10 ^ ndigits)) / 10 ^ ndigits)"

subsection \<open>Unit conversion (\<^verbatim>\<open>Web3.from_wei\<close>, \<^verbatim>\<open>Web3.to_wei\<close>)\<close>

text \<open>
  \<^verbatim>\<open>w3.from_wei\<close> and \<^verbatim>\<open>w3.to_wei\<close> are the static methods of web3.py, which call
  \<^verbatim>\<open>eth_utils.currency.from_wei\<close> and \<^verbatim>\<open>to_wei\<close>.  \<^verbatim>\<open>from_wei(number, unit)\<close> returns 0
  for 0, raises \<^verbatim>\<open>ValueError("value must be between 1 and 2**256 - 1")\<close> when the
  number is negative or above \<^verbatim>\<open>MAX_WEI = 2**256 - 1\<close>, and otherwise divides exactly
  (a \<^verbatim>\<open>Decimal\<close> of 999 digits) by the unit: \<^verbatim>\<open>10**9\<close> for gwei, \<^verbatim>\<open>10**18\<close> for ether.
\<close>

datatype wei_unit = Gwei | Ether

fun unit_value :: "wei_unit \<Rightarrow> int" where
  "unit_value Gwei = 1000000000"
| "unit_value Ether = 1000000000000000000"

definition MAX_WEI :: int where
  "MAX_WEI = 2 ^ 256 - 1"

definition from_wei :: "int \<Rightarrow> wei_unit \<Rightarrow> exn + rat" where
  "from_wei number u =
     (if number = 0 then Inr 0
      else if number < 0 \<or> number > MAX_WEI
        then Inl ''value must be between 1 and 2**256 - 1''
      else Inr (of_int number / of_int (unit_value u)))"

definition to_wei :: "int \<Rightarrow> wei_unit \<Rightarrow> int" where
  "to_wei number u = number * unit_value u"

section \<open>The data of the engine\<close>

text \<open>The transaction dictionary \<^verbatim>\<open>tx\<close>; the two optional keys are absent when \<open>None\<close>.\<close>

record tx =
  tx_from :: string
  tx_to :: string
  tx_value :: int
  tx_data :: string
  tx_gas :: "int option"
  tx_gasPrice :: "int option"

text \<open>
  A \<^verbatim>\<open>Web3\<close> instance is the node behind it: what each of the three queries the engine
  issues answers, a value or a raised exception.
\<close>

record w3 =
  eth_call :: "tx \<Rightarrow> exn + string"
  eth_estimate_gas :: "tx \<Rightarrow> exn + int"
  eth_gas_price :: "exn + int"

datatype rpc_op = EthCall | EthEstimateGas | EthGasPrice

record engine =
  rpc_urls :: "int \<rightharpoonup> string"
  w3_instances :: "int \<rightharpoonup> w3"

text \<open>One entry of \<^verbatim>\<open>asset_changes\<close>; every key of the dictionary is always present.\<close>

record asset_change =
  asset_type :: string
  change_type :: string
  ac_from :: string
  ac_to :: string
  amount_wei :: int
  amount_eth :: rat
  symbol :: string

text \<open>
  The five messages of \<^verbatim>\<open>_generate_warnings\<close>, each with the quantity its text is
  formatted from (the formatting itself, \<^verbatim>\<open>{:,}\<close> and \<^verbatim>\<open>{:.2f}\<close>, is not modelled).
\<close>

datatype warning =
    WillFail
  | HighGasUsage int
  | HighGasCost rat
  | ExtremeGasCost
  | NoTransfers

text \<open>The returned dictionary, in insertion order.\<close>

datatype pyval =
    PNone
  | PBool bool
  | PInt int
  | PFloat rat
  | PStr string
  | PChanges "asset_change list"
  | PWarnings "warning list"

type_synonym result = "(string \<times> pyval) list"

section \<open>The engine\<close>

text \<open>
  \<^verbatim>\<open>__init__\<close>: one \<^verbatim>\<open>Web3\<close> instance per chain with a non-empty URL; a chain whose
  instance cannot be constructed is left out.  \<open>Web3\<close> is the constructor
  \<^verbatim>\<open>Web3(Web3.HTTPProvider(rpc_url))\<close>.
\<close>

definition init :: "(string \<Rightarrow> exn + w3) \<Rightarrow> (int \<rightharpoonup> string) \<Rightarrow> engine" where
  "init Web3 urls =
     \<lparr> rpc_urls = urls,
       w3_instances = (\<lambda>chain_id.
         case urls chain_id of
           None \<Rightarrow> None
         | Some rpc_url \<Rightarrow>
             if rpc_url \<noteq> [] then
               (case Web3 rpc_url of Inl e \<Rightarrow> None | Inr w \<Rightarrow> Some w)
             else None) \<rparr>"

definition normalize_address :: "string \<Rightarrow> exn + string" where
  "normalize_address addr0 =
     (let addr = strip addr0 in
      if \<not> startswith addr ''0x'' \<or> length addr \<noteq> 42
        then Inl (''Invalid address format: '' @ addr)
      else Inr addr)"

text \<open>
  The conditional expression of lines 105, 111 and 113:
  \<^verbatim>\<open>int(v, 16) if isinstance(v, str) and v.startswith("0x") else int(v)\<close>.
\<close>

definition parse_quantity :: "string \<Rightarrow> exn + int" where
  "parse_quantity v = (if startswith v ''0x'' then py_int 16 v else py_int 10 v)"

text \<open>\<^verbatim>\<open>if gas: tx["gas"] = ...\<close>: \<^verbatim>\<open>None\<close> and the empty string add no key.\<close>

definition parse_optional :: "string option \<Rightarrow> exn + int option" where
  "parse_optional x =
     (case x of
        None \<Rightarrow> Inr None
      | Some s \<Rightarrow>
          if s = [] then Inr None
          else (case parse_quantity s of Inl e \<Rightarrow> Inl e | Inr n \<Rightarrow> Inr (Some n)))"

definition build_tx ::
  "string \<Rightarrow> string \<Rightarrow> string \<Rightarrow> string \<Rightarrow> string option \<Rightarrow> string option \<Rightarrow> exn + tx" where
  "build_tx from_addr to_addr value data gas gas_price =
     (case parse_quantity value of
        Inl e \<Rightarrow> Inl e
      | Inr v \<Rightarrow>
          (case parse_optional gas of
             Inl e \<Rightarrow> Inl e
           | Inr g \<Rightarrow>
               (case parse_optional gas_price of
                  Inl e \<Rightarrow> Inl e
                | Inr gp \<Rightarrow>
                    Inr \<lparr> tx_from = from_addr, tx_to = to_addr, tx_value = v,
                          tx_data = data, tx_gas = g, tx_gasPrice = gp \<rparr>)))"

definition analyze_asset_changes ::
  "w3 \<Rightarrow> string \<Rightarrow> string \<Rightarrow> int \<Rightarrow> string \<Rightarrow> exn + asset_change list" where
  "analyze_asset_changes w from_addr to_addr value data =
     (if value > 0 then
        (case from_wei value Ether of
           Inl e \<Rightarrow> Inl e
         | Inr eth \<Rightarrow>
             Inr [\<lparr> asset_type = ''NATIVE'', change_type = ''TRANSFER'',
                    ac_from = from_addr, ac_to = to_addr, amount_wei = value,
                    amount_eth = to_float eth, symbol = ''ETH'' \<rparr>])
      else Inr [])"

definition get_eth_price :: "int \<Rightarrow> rat" where
  "get_eth_price chain_id =
     (case map_of [(1, 3000), (10, 3000), (56, 600), (137, 1), (42161, 3000),
                   (8453, 3000), (43114, 40)] chain_id of
        Some p \<Rightarrow> p
      | None \<Rightarrow> 3000)"

definition generate_warnings ::
  "bool \<Rightarrow> int \<Rightarrow> rat \<Rightarrow> asset_change list \<Rightarrow> warning list" where
  "generate_warnings success gas_estimate gas_cost_usd asset_changes =
     (if \<not> success then [WillFail] else []) @
     (if gas_estimate > 1000000 then [HighGasUsage gas_estimate] else []) @
     (if gas_cost_usd > 10 then [HighGasCost gas_cost_usd] else []) @
     (if gas_cost_usd > 50 then [ExtremeGasCost] else []) @
     (if length asset_changes = 0 then [NoTransfers] else [])"

text \<open>
  Lines 115 to 138: the three queries, each with its own handler.  The result is
  \<open>(simulation_success, error_msg, gas_estimate, current_gas_price)\<close> and the queries
  issued.  \<^verbatim>\<open>if not error_msg\<close> holds for \<^verbatim>\<open>None\<close> and for the empty string.
\<close>

definition run_queries ::
  "w3 \<Rightarrow> tx \<Rightarrow> (bool \<times> string option \<times> int \<times> int) \<times> rpc_op list" where
  "run_queries w t =
     (let (simulation_success, error_msg) =
            (case eth_call w t of
               Inr result \<Rightarrow> (True, None)
             | Inl call_error \<Rightarrow> (False, Some call_error));
          ops1 = [EthCall];
          (gas_estimate, error_msg) =
            (case eth_estimate_gas w t of
               Inr g \<Rightarrow> (g, error_msg)
             | Inl gas_error \<Rightarrow>
                 (21000,
                  if error_msg = None \<or> error_msg = Some []
                    then Some (''Gas estimation failed: '' @ gas_error)
                  else error_msg));
          ops2 = ops1 @ [EthEstimateGas];
          current_gas_price =
            (case eth_gas_price w of
               Inr p \<Rightarrow> p
             | Inl e \<Rightarrow> to_wei 20 Gwei);
          ops3 = ops2 @ [EthGasPrice]
      in ((simulation_success, error_msg, gas_estimate, current_gas_price), ops3))"

text \<open>
  Lines 140 to 169: costs, asset changes, warnings and the full dictionary.
  \<^verbatim>\<open>float(gas_cost_eth) * eth_price_usd\<close> is the product of two floats, rounded; the
  prices of the table are floats (or integers that are) as they stand.
\<close>

definition assemble ::
  "w3 \<Rightarrow> int \<Rightarrow> tx \<Rightarrow> string \<Rightarrow> bool \<times> string option \<times> int \<times> int \<Rightarrow> exn + result" where
  "assemble w chain_id t data q =
     (case q of (simulation_success, error_msg, gas_estimate, current_gas_price) \<Rightarrow>
        let gas_cost_wei = gas_estimate * current_gas_price in
        (case from_wei gas_cost_wei Ether of
           Inl e \<Rightarrow> Inl e
         | Inr gas_cost_eth \<Rightarrow>
             let eth_price_usd = get_eth_price chain_id;
                 gas_cost_usd = to_float (to_float gas_cost_eth * eth_price_usd)
             in
             (case analyze_asset_changes w (tx_from t) (tx_to t) (tx_value t) data of
                Inl e \<Rightarrow> Inl e
              | Inr asset_changes \<Rightarrow>
                  let warnings = generate_warnings simulation_success gas_estimate
                                   gas_cost_usd asset_changes
                  in
                  (case from_wei current_gas_price Gwei of
                     Inl e \<Rightarrow> Inl e
                   | Inr gas_price_gwei \<Rightarrow>
                       Inr [(''success'', PBool simulation_success),
                            (''gas_used'', PInt gas_estimate),
                            (''gas_cost_eth'', PFloat (to_float gas_cost_eth)),
                            (''gas_cost_usd'', PFloat (py_round gas_cost_usd 4)),
                            (''gas_price_gwei'', PFloat (to_float gas_price_gwei)),
                            (''error'', (case error_msg of None \<Rightarrow> PNone | Some m \<Rightarrow> PStr m)),
                            (''asset_changes'', PChanges asset_changes),
                            (''warnings'', PWarnings warnings),
                            (''chain_id'', PInt chain_id),
                            (''simulation_method'', PStr ''eth_call'')]))))"

text \<open>
  The body of the outer \<^verbatim>\<open>try\<close> (lines 75 to 169): \<open>Inr\<close> is a \<^verbatim>\<open>return\<close>, \<open>Inl\<close> an
  exception that leaves the body.  The second component lists the queries issued.
\<close>

definition simulate_body ::
  "engine \<Rightarrow> int \<Rightarrow> string \<Rightarrow> string \<Rightarrow> string \<Rightarrow> string \<Rightarrow> string option \<Rightarrow> string option
     \<Rightarrow> (exn + result) \<times> rpc_op list" where
  "simulate_body self chain_id from_address to_address value data gas gas_price =
     (case w3_instances self chain_id of
        None \<Rightarrow>
          (Inr [(''success'', PBool False),
                (''error'', PStr (''Chain '' @ str_int chain_id @ '' not supported'')),
                (''chain_id'', PInt chain_id)], [])
      | Some w \<Rightarrow>
          (case normalize_address from_address of
             Inl e \<Rightarrow>
               (Inr [(''success'', PBool False),
                     (''error'', PStr (''Invalid address: '' @ e)),
                     (''chain_id'', PInt chain_id)], [])
           | Inr from_addr \<Rightarrow>
               (case normalize_address to_address of
                  Inl e \<Rightarrow>
                    (Inr [(''success'', PBool False),
                          (''error'', PStr (''Invalid address: '' @ e)),
                          (''chain_id'', PInt chain_id)], [])
                | Inr to_addr \<Rightarrow>
                    (case build_tx from_addr to_addr value data gas gas_price of
                       Inl e \<Rightarrow> (Inl e, [])
                     | Inr t \<Rightarrow>
                         (case run_queries w t of
                            (q, ops) \<Rightarrow> (assemble w chain_id t data q, ops))))))"

text \<open>
  \<^verbatim>\<open>simulate_transaction\<close>: the body under \<^verbatim>\<open>except Exception\<close> (lines 171 to 177).
\<close>

definition simulate_transaction ::
  "engine \<Rightarrow> int \<Rightarrow> string \<Rightarrow> string \<Rightarrow> string \<Rightarrow> string \<Rightarrow> string option \<Rightarrow> string option
     \<Rightarrow> result \<times> rpc_op list" where
  "simulate_transaction self chain_id from_address to_address value data gas gas_price =
     (case simulate_body self chain_id from_address to_address value data gas gas_price of
        (Inr r, ops) \<Rightarrow> (r, ops)
      | (Inl e, ops) \<Rightarrow>
          ([(''success'', PBool False),
            (''error'', PStr (''Simulation failed: '' @ e)),
            (''chain_id'', PInt chain_id)], ops))"

section \<open>Example nodes and requests\<close>

text \<open>
  Four nodes and an engine configured with five chains, one of them with an empty URL:
  a node that answers every query, a node that refuses every query, a node whose gas
  estimate is below 21000, and a node with a large estimate at a high gas price.  They
  are the concrete inputs at which the theorems below are instantiated.
\<close>

definition mainnet_node :: w3 where
  "mainnet_node =
     \<lparr> eth_call = (\<lambda>t. Inr ''0x''),
       eth_estimate_gas = (\<lambda>t. Inr 100000),
       eth_gas_price = Inr 33333400000 \<rparr>"

definition reverting_node :: w3 where
  "reverting_node =
     \<lparr> eth_call = (\<lambda>t. Inl ''execution reverted''),
       eth_estimate_gas = (\<lambda>t. Inl ''execution reverted''),
       eth_gas_price = Inl ''connection refused'' \<rparr>"

definition optimism_node :: w3 where
  "optimism_node =
     \<lparr> eth_call = (\<lambda>t. Inr ''0x''),
       eth_estimate_gas = (\<lambda>t. Inr 18000),
       eth_gas_price = Inr 1000000 \<rparr>"

definition arbitrum_node :: w3 where
  "arbitrum_node =
     \<lparr> eth_call = (\<lambda>t. Inr ''0x''),
       eth_estimate_gas = (\<lambda>t. Inr 2000000),
       eth_gas_price = Inr 50000000000 \<rparr>"

definition example_urls :: "int \<rightharpoonup> string" where
  "example_urls =
     [1 \<mapsto> ''https://eth.llamarpc.com'', 56 \<mapsto> '''',
      137 \<mapsto> ''https://polygon-rpc.com'', 10 \<mapsto> ''https://mainnet.optimism.io'',
      42161 \<mapsto> ''https://arb1.arbitrum.io/rpc'']"

definition example_connect :: "string \<Rightarrow> exn + w3" where
  "example_connect url =
     (if url = ''https://eth.llamarpc.com'' then Inr mainnet_node
      else if url = ''https://mainnet.optimism.io'' then Inr optimism_node
      else if url = ''https://arb1.arbitrum.io/rpc'' then Inr arbitrum_node
      else Inr reverting_node)"

definition example_engine :: engine where
  "example_engine = init example_connect example_urls"

definition alice :: string where
  "alice = ''0x742d35Cc6634C0532925a3b844Bc9e7595f0bEb1''"

definition usdc :: string where
  "usdc = ''0xA0b86991c6218b36c1d19D4a2e9Eb0cE3606eB48''"

text \<open>The payload of a transfer of 10000000 wei, and of a call that transfers nothing.\<close>

definition polygon_transfer :: tx where
  "polygon_transfer =
     \<lparr> tx_from = alice, tx_to = usdc, tx_value = 10000000, tx_data = ''0x'',
       tx_gas = None, tx_gasPrice = None \<rparr>"

definition plain_call :: tx where
  "plain_call =
     \<lparr> tx_from = alice, tx_to = usdc, tx_value = 0, tx_data = ''0x'',
       tx_gas = None, tx_gasPrice = None \<rparr>"

section \<open>The paths through \<^verbatim>\<open>simulate_transaction\<close>\<close>

lemmas py_string_defs = startswith_def strip_def isspace_def py_whitespace_def
  int_strip_def int_whitespace_def
lemmas py_int_defs = parse_quantity_def py_int_def parse_magnitude_def digit_in_def
  digit_value_def
lemmas example_defs = example_engine_def init_def example_urls_def example_connect_def
  mainnet_node_def reverting_node_def optimism_node_def arbitrum_node_def alice_def usdc_def


lemma simulate_bad_from:
  assumes "w3_instances self chain_id = Some w" and "normalize_address fa = Inl e"
  shows "simulate_transaction self chain_id fa ta v d g gp =
     ([(''success'', PBool False),
       (''error'', PStr (''Invalid address: '' @ e)),
       (''chain_id'', PInt chain_id)], [])"
  using assms by (simp add: simulate_transaction_def simulate_body_def)

lemma simulate_bad_to:
  assumes "w3_instances self chain_id = Some w" and "normalize_address fa = Inr fa'"
    and "normalize_address ta = Inl e"
  shows "simulate_transaction self chain_id fa ta v d g gp =
     ([(''success'', PBool False),
       (''error'', PStr (''Invalid address: '' @ e)),
       (''chain_id'', PInt chain_id)], [])"
  using assms by (simp add: simulate_transaction_def simulate_body_def)


lemma run_queries_ops: "snd (run_queries w t) = [EthCall, EthEstimateGas, EthGasPrice]"
  by (simp add: run_queries_def Let_def split: sum.splits prod.splits)

lemma run_queries_fst:
  "fst (run_queries w t) =
     ((case eth_call w t of Inr x \<Rightarrow> True | Inl m \<Rightarrow> False),
      (case eth_estimate_gas w t of
         Inr n \<Rightarrow> (case eth_call w t of Inr x \<Rightarrow> None | Inl m \<Rightarrow> Some m)
       | Inl ge \<Rightarrow>
           (case eth_call w t of
              Inr x \<Rightarrow> Some (''Gas estimation failed: '' @ ge)
            | Inl m \<Rightarrow> if m = [] then Some (''Gas estimation failed: '' @ ge) else Some m)),
      (case eth_estimate_gas w t of Inr n \<Rightarrow> n | Inl ge \<Rightarrow> 21000),
      (case eth_gas_price w of Inr p \<Rightarrow> p | Inl e \<Rightarrow> 20000000000))"
  by (simp add: run_queries_def Let_def to_wei_def split: sum.splits prod.splits)

lemma simulate_queries:
  assumes "w3_instances self chain_id = Some w" and "normalize_address fa = Inr fa'"
    and "normalize_address ta = Inr ta'" and "build_tx fa' ta' v d g gp = Inr t"
  shows "simulate_transaction self chain_id fa ta v d g gp =
     ((case assemble w chain_id t d (fst (run_queries w t)) of
         Inr r \<Rightarrow> r
       | Inl e \<Rightarrow> [(''success'', PBool False),
                  (''error'', PStr (''Simulation failed: '' @ e)),
                  (''chain_id'', PInt chain_id)]),
      [EthCall, EthEstimateGas, EthGasPrice])"
proof -
  obtain q ops where q: "run_queries w t = (q, ops)"
    by (cases "run_queries w t")
  with run_queries_ops [of w t] have "ops = [EthCall, EthEstimateGas, EthGasPrice]"
    by simp
  with assms q show ?thesis
    by (simp add: simulate_transaction_def simulate_body_def split: sum.splits)
qed

lemma from_wei_ok:
  "0 \<le> n \<Longrightarrow> n \<le> MAX_WEI \<Longrightarrow> from_wei n u = Inr (of_int n / of_int (unit_value u))"
  by (simp add: from_wei_def)

lemma analyze_asset_changes_ok:
  "v \<le> MAX_WEI \<Longrightarrow>
   analyze_asset_changes w fa ta v d =
     Inr (if 0 < v
          then [\<lparr> asset_type = ''NATIVE'', change_type = ''TRANSFER'', ac_from = fa,
                   ac_to = ta, amount_wei = v,
                   amount_eth = to_float (of_int v / 1000000000000000000),
                   symbol = ''ETH'' \<rparr>]
          else [])"
  by (simp add: analyze_asset_changes_def from_wei_def)


lemma assemble_ok:
  assumes "0 \<le> gas * price" and "gas * price \<le> MAX_WEI"
    and "0 \<le> price" and "price \<le> MAX_WEI" and "tx_value t \<le> MAX_WEI"
  shows "assemble w chain_id t d (succ, err, gas, price) =
     Inr [(''success'', PBool succ),
          (''gas_used'', PInt gas),
          (''gas_cost_eth'', PFloat (to_float (of_int (gas * price) / 1000000000000000000))),
          (''gas_cost_usd'',
             PFloat (py_round
               (to_float (to_float (of_int (gas * price) / 1000000000000000000)
                            * get_eth_price chain_id)) 4)),
          (''gas_price_gwei'', PFloat (to_float (of_int price / 1000000000))),
          (''error'', (case err of None \<Rightarrow> PNone | Some m \<Rightarrow> PStr m)),
          (''asset_changes'',
             PChanges (if 0 < tx_value t
               then [\<lparr> asset_type = ''NATIVE'', change_type = ''TRANSFER'',
                        ac_from = tx_from t, ac_to = tx_to t, amount_wei = tx_value t,
                        amount_eth = to_float (of_int (tx_value t) / 1000000000000000000),
                        symbol = ''ETH'' \<rparr>]
               else [])),
          (''warnings'',
             PWarnings (generate_warnings succ gas
               (to_float (to_float (of_int (gas * price) / 1000000000000000000)
                            * get_eth_price chain_id))
               (if 0 < tx_value t
                then [\<lparr> asset_type = ''NATIVE'', change_type = ''TRANSFER'',
                        ac_from = tx_from t, ac_to = tx_to t, amount_wei = tx_value t,
                        amount_eth = to_float (of_int (tx_value t) / 1000000000000000000),
                        symbol = ''ETH'' \<rparr>]
                else []))),
          (''chain_id'', PInt chain_id),
          (''simulation_method'', PStr ''eth_call'')]"
  using assms
  by (simp add: assemble_def Let_def from_wei_ok analyze_asset_changes_ok del: of_int_mult)

lemma assemble_raises:
  "assemble w chain_id t d q = Inl e \<Longrightarrow> e = ''value must be between 1 and 2**256 - 1''"
  by (auto simp: assemble_def Let_def from_wei_def analyze_asset_changes_def
      split: prod.splits sum.splits if_splits)




lemma body_returns_shape:
  assumes "fst (simulate_body self chain_id fa ta v d g gp) = Inr r"
  shows "(\<exists>m. r = [(''success'', PBool False), (''error'', PStr m), (''chain_id'', PInt chain_id)])
       \<or> (\<exists>w t q. assemble w chain_id t d q = Inr r)"
  using assms
  by (auto simp: simulate_body_def split: option.splits sum.splits prod.splits)

lemma assemble_success_error:
  assumes "assemble w chain_id t d q = Inr r"
  shows "(\<exists>b. map_of r ''success'' = Some (PBool b)) \<and>
         (map_of r ''error'' = Some PNone \<or> (\<exists>m. map_of r ''error'' = Some (PStr m)))"
  using assms
  by (auto simp: assemble_def Let_def split: prod.splits sum.splits option.splits)


lemma build_tx_fields:
  assumes "build_tx fa ta v d g gp = Inr t"
  shows "tx_from t = fa" and "tx_to t = ta" and "parse_quantity v = Inr (tx_value t)"
    and "tx_data t = d"
  using assms by (auto simp: build_tx_def split: sum.splits)

lemma simulate_completes:
  assumes "w3_instances self chain_id = Some w"
    and "normalize_address fa = Inr fa'" and "normalize_address ta = Inr ta'"
    and "build_tx fa' ta' v d g gp = Inr t"
    and "gas = (case eth_estimate_gas w t of Inr n \<Rightarrow> n | Inl e \<Rightarrow> 21000)"
    and "price = (case eth_gas_price w of Inr p \<Rightarrow> p | Inl e \<Rightarrow> 20000000000)"
    and "0 \<le> gas * price" and "gas * price \<le> MAX_WEI"
    and "0 \<le> price" and "price \<le> MAX_WEI" and "tx_value t \<le> MAX_WEI"
  shows "\<exists>succ err. fst (run_queries w t) = (succ, err, gas, price) \<and>
     fst (simulate_transaction self chain_id fa ta v d g gp) =
      [(''success'', PBool succ),
       (''gas_used'', PInt gas),
       (''gas_cost_eth'', PFloat (to_float (of_int (gas * price) / 1000000000000000000))),
       (''gas_cost_usd'',
          PFloat (py_round
            (to_float (to_float (of_int (gas * price) / 1000000000000000000)
                         * get_eth_price chain_id)) 4)),
       (''gas_price_gwei'', PFloat (to_float (of_int price / 1000000000))),
       (''error'', (case err of None \<Rightarrow> PNone | Some m \<Rightarrow> PStr m)),
       (''asset_changes'',
          PChanges (if 0 < tx_value t
            then [\<lparr> asset_type = ''NATIVE'', change_type = ''TRANSFER'',
                     ac_from = tx_from t, ac_to = tx_to t, amount_wei = tx_value t,
                     amount_eth = to_float (of_int (tx_value t) / 1000000000000000000),
                     symbol = ''ETH'' \<rparr>]
            else [])),
       (''warnings'',
          PWarnings (generate_warnings succ gas
            (to_float (to_float (of_int (gas * price) / 1000000000000000000)
                         * get_eth_price chain_id))
            (if 0 < tx_value t
             then [\<lparr> asset_type = ''NATIVE'', change_type = ''TRANSFER'',
                     ac_from = tx_from t, ac_to = tx_to t, amount_wei = tx_value t,
                     amount_eth = to_float (of_int (tx_value t) / 1000000000000000000),
                     symbol = ''ETH'' \<rparr>]
             else []))),
       (''chain_id'', PInt chain_id),
       (''simulation_method'', PStr ''eth_call'')]"
proof -
  obtain succ err where q: "fst (run_queries w t) = (succ, err, gas, price)"
    by (simp add: run_queries_fst assms(5,6))
  show ?thesis
    by (rule exI [of _ succ], rule exI [of _ err])
      (simp only: simulate_queries [OF assms(1-4)] q assemble_ok [OF assms(7-11)]
        fst_conv sum.case simp_thms)
qed





section \<open>Facts about the library functions\<close>

lemma strip_Cons:
  "\<not> isspace a \<Longrightarrow> strip (a # rest) = a # rev (dropWhile isspace (rev rest))"
  by (auto simp: strip_def dropWhile_append)

lemma int_strip_Cons:
  "a \<notin> set int_whitespace \<Longrightarrow>
   int_strip (a # rest) = a # rev (dropWhile (\<lambda>c. c \<in> set int_whitespace) (rev rest))"
  by (auto simp: int_strip_def dropWhile_append)

lemma int_whitespace_isspace: "c \<in> set int_whitespace \<Longrightarrow> isspace c"
  by (auto simp: int_whitespace_def isspace_def py_whitespace_def)

lemma int_strip_minus:
  assumes "startswith (int_strip v) ''-''"
  shows "startswith (strip v) ''-''"
proof -
  define y where "y = dropWhile (\<lambda>c. c \<in> set int_whitespace) v"
  define z where "z = takeWhile (\<lambda>c. c \<in> set int_whitespace) v"
  have s: "int_strip v = rev (dropWhile (\<lambda>c. c \<in> set int_whitespace) (rev y))"
    by (simp add: int_strip_def y_def)
  show ?thesis
  proof (cases y)
    case Nil
    with s have "int_strip v = []" by simp
    with assms show ?thesis by (simp add: startswith_def)
  next
    case (Cons c ys)
    then have "dropWhile (\<lambda>c. c \<in> set int_whitespace) v \<noteq> []"
      by (simp add: y_def)
    from hd_dropWhile [OF this] Cons have c: "c \<notin> set int_whitespace"
      by (simp add: y_def)
    have "int_strip v = int_strip y"
      by (simp add: int_strip_def y_def)
    also have "\<dots> = c # rev (dropWhile (\<lambda>c. c \<in> set int_whitespace) (rev ys))"
      unfolding Cons by (rule int_strip_Cons [OF c])
    finally have m: "c = CHR ''-''"
      using assms by (simp add: startswith_def)
    have "\<And>x. x \<in> set z \<Longrightarrow> isspace x"
      unfolding z_def by (auto dest: set_takeWhileD int_whitespace_isspace)
    then have "dropWhile isspace (z @ y) = dropWhile isspace y"
      by (rule dropWhile_append2)
    moreover have "z @ y = v"
      by (simp add: z_def y_def)
    ultimately have "dropWhile isspace v = dropWhile isspace y"
      by simp
    then have "strip v = strip y"
      by (simp only: strip_def)
    also have "\<dots> = CHR ''-'' # rev (dropWhile isspace (rev ys))"
      unfolding Cons m by (rule strip_Cons) (simp add: isspace_def py_whitespace_def)
    finally show ?thesis
      by (simp add: startswith_def)
  qed
qed

lemma int_strip_0x: "startswith v ''0x'' \<Longrightarrow> \<not> startswith (int_strip v) ''-''"
proof -
  assume "startswith v ''0x''"
  then obtain rest where v: "v = CHR ''0'' # rest"
    by (cases v) (auto simp: startswith_def)
  have "CHR ''0'' \<notin> set int_whitespace"
    by (simp add: int_whitespace_def)
  from int_strip_Cons [OF this] v show ?thesis
    by (simp add: startswith_def)
qed

lemma py_int_sign:
  assumes "py_int b s = Inr n" and "\<not> startswith (int_strip s) ''-''"
  shows "0 \<le> n"
proof -
  define u where "u = (if startswith (int_strip s) ''+'' then drop 1 (int_strip s)
                       else int_strip s)"
  define v where "v = (if b = 16 \<and> (startswith u ''0x'' \<or> startswith u ''0X'')
               then (if startswith (drop 2 u) ''_'' then drop 3 u else drop 2 u)
               else u)"
  have "py_int b s =
      (case parse_magnitude b s v of Inl e \<Rightarrow> Inl e | Inr m \<Rightarrow> Inr (1 * int m))"
    using assms(2) unfolding py_int_def Let_def v_def u_def by (simp only: if_False simp_thms)
  with assms(1) show ?thesis
    by (cases "parse_magnitude b s v") auto
qed

lemma parse_quantity_sign:
  "parse_quantity s = Inr n \<Longrightarrow> \<not> startswith (strip s) ''-'' \<Longrightarrow> 0 \<le> n"
  using int_strip_minus [of s]
  by (auto simp: parse_quantity_def dest: py_int_sign split: if_splits)

lemma parse_quantity_0x:
  "parse_quantity s = Inr n \<Longrightarrow> startswith s ''0x'' \<Longrightarrow> 0 \<le> n"
  using int_strip_0x [of s]
  by (auto simp: parse_quantity_def dest: py_int_sign split: if_splits)


lemma round_half_even_ge: "of_int k \<le> y \<Longrightarrow> k \<le> round_half_even y"
proof -
  assume "of_int k \<le> y"
  then have "k \<le> \<lfloor>y\<rfloor>" by linarith
  then show ?thesis by (simp add: round_half_even_def Let_def)
qed

lemma ulp_pos: "0 < u \<Longrightarrow> 0 < ulp n x u"
  by (induction n arbitrary: u) (auto simp: ulp.simps)


lemma ulp_lower:
  "0 < u \<Longrightarrow> 0 \<le> x \<Longrightarrow> 2 ^ 52 \<le> x / u * 2 ^ n \<Longrightarrow> 2 ^ 52 \<le> x / ulp n x u"
proof (induction n arbitrary: u)
  case 0
  then show ?case by (simp add: ulp.simps)
next
  case (Suc n)
  show ?case
  proof (cases "x / u < 2 ^ 52")
    case True
    from Suc.prems(3) have "2 ^ 52 \<le> x / (u / 2) * 2 ^ n" by (simp add: mult.commute)
    with Suc.IH [of "u / 2"] Suc.prems(1,2) True show ?thesis by (simp add: ulp.simps)
  next
    case False
    show ?thesis
    proof (cases "2 ^ 53 \<le> x / u")
      case True
      then have a: "2 ^ 52 \<le> x / (u * 2)" by simp
      have "0 \<le> x / (u * 2)" using Suc.prems(1,2) by simp
      then have "x / (u * 2) * 1 \<le> x / (u * 2) * 2 ^ n"
        by (intro mult_left_mono) simp_all
      with a have "2 ^ 52 \<le> x / (u * 2) * 2 ^ n" by simp
      with Suc.IH [of "u * 2"] Suc.prems(1,2) True False show ?thesis
        by (simp add: ulp.simps)
    next
      case False
      with \<open>\<not> x / u < 2 ^ 52\<close> show ?thesis by (simp add: ulp.simps)
    qed
  qed
qed


lemma to_float_pos:
  assumes "0 < x" and "1 \<le> x * 2 ^ 1148"
  shows "0 < to_float x"
proof -
  define u where "u = ulp 1200 \<bar>x\<bar> 1"
  have u: "0 < u" unfolding u_def by (rule ulp_pos) simp
  have t: "to_float x = of_int (round_half_even (x / u)) * u"
    using assms(1) by (simp add: to_float_def Let_def u_def)
  have "(2::rat) ^ 52 * 1 \<le> 2 ^ 52 * (x * 2 ^ 1148)"
    using assms(2) by (intro mult_left_mono) simp_all
  also have "\<dots> = \<bar>x\<bar> / 1 * 2 ^ 1200"
    using assms(1) by simp
  finally have "2 ^ 52 \<le> \<bar>x\<bar> / 1 * 2 ^ 1200" by simp
  from ulp_lower [OF _ _ this] have "2 ^ 52 \<le> \<bar>x\<bar> / u" by (simp add: u_def)
  with assms(1) have "of_int 1 \<le> x / u" by simp
  then have "1 \<le> round_half_even (x / u)" by (rule round_half_even_ge)
  then have "(0::rat) < of_int (round_half_even (x / u))" by simp
  with u t show ?thesis by simp
qed



lemma amount_eth_pos:
  assumes "0 < v"
  shows "0 < to_float (of_int v / 1000000000000000000)"
proof (rule to_float_pos)
  show "(0::rat) < of_int v / 1000000000000000000" using assms by simp
  have "(1::rat) \<le> of_int v" using assms by simp
  moreover have "(1::rat) \<le> 2 ^ 1148 / 1000000000000000000" by simp
  ultimately have "(1::rat) * 1 \<le> of_int v * (2 ^ 1148 / 1000000000000000000)"
    by (intro mult_mono) simp_all
  then show "(1::rat) \<le> of_int v / 1000000000000000000 * 2 ^ 1148" by simp
qed

section \<open>The example requests\<close>

lemma normalize_alice: "normalize_address alice = Inr alice"
  by (simp add: normalize_address_def py_string_defs alice_def)

lemma normalize_usdc: "normalize_address usdc = Inr usdc"
  by (simp add: normalize_address_def py_string_defs usdc_def)

lemma mainnet_instance: "w3_instances example_engine 1 = Some mainnet_node"
  by (simp add: example_defs)

lemma polygon_instance: "w3_instances example_engine 137 = Some reverting_node"
  by (simp add: example_defs)



lemma build_polygon_transfer:
  "build_tx alice usdc ''0x989680'' ''0x'' None None = Inr polygon_transfer"
  by (simp add: build_tx_def parse_optional_def py_int_defs py_string_defs
      polygon_transfer_def)

lemma build_plain_call:
  "build_tx alice usdc ''0x0'' ''0x'' None None = Inr plain_call"
  by (simp add: build_tx_def parse_optional_def py_int_defs py_string_defs plain_call_def)

section \<open>Properties\<close>

text \<open>
  C1.  For every input \<^verbatim>\<open>simulate_transaction\<close> returns a dictionary with a \<^verbatim>\<open>success\<close>
  and an \<^verbatim>\<open>error\<close> entry (the latter \<^verbatim>\<open>None\<close> or a string), and an exception that leaves
  the body of the \<^verbatim>\<open>try\<close> is turned into the dictionary with \<^verbatim>\<open>success = False\<close> and the
  error \<^verbatim>\<open>Simulation failed: ...\<close>; the function itself has no exceptional result.
\<close>

theorem simulate_transaction_never_raises:
  "(\<exists>b. map_of (fst (simulate_transaction self chain_id fa ta v d g gp)) ''success''
           = Some (PBool b)) \<and>
   (map_of (fst (simulate_transaction self chain_id fa ta v d g gp)) ''error'' = Some PNone \<or>
    (\<exists>m. map_of (fst (simulate_transaction self chain_id fa ta v d g gp)) ''error''
           = Some (PStr m))) \<and>
   (\<forall>e. fst (simulate_body self chain_id fa ta v d g gp) = Inl e \<longrightarrow>
        fst (simulate_transaction self chain_id fa ta v d g gp) =
          [(''success'', PBool False),
           (''error'', PStr (''Simulation failed: '' @ e)),
           (''chain_id'', PInt chain_id)])"
proof -
  obtain x ops where b: "simulate_body self chain_id fa ta v d g gp = (x, ops)"
    by (cases "simulate_body self chain_id fa ta v d g gp")
  show ?thesis
  proof (cases x)
    case (Inl e)
    with b show ?thesis by (auto simp: simulate_transaction_def)
  next
    case (Inr r)
    with b have r: "fst (simulate_transaction self chain_id fa ta v d g gp) = r"
      by (simp add: simulate_transaction_def)
    from b Inr have "fst (simulate_body self chain_id fa ta v d g gp) = Inr r" by simp
    from body_returns_shape [OF this]
    have "(\<exists>b. map_of r ''success'' = Some (PBool b)) \<and>
         (map_of r ''error'' = Some PNone \<or> (\<exists>m. map_of r ''error'' = Some (PStr m)))"
      using assemble_success_error by fastforce
    with r b Inr show ?thesis by simp
  qed
qed

theorem simulate_transaction_never_raises_witness:
  "fst (simulate_body example_engine 1 alice usdc ''1 ether'' ''0x'' None None)
     = Inl (''invalid literal for int() with base 10: '' @ CHR 0x27 # ''1 ether'' @ [CHR 0x27]) \<and>
   simulate_transaction example_engine 1 alice usdc ''1 ether'' ''0x'' None None =
     ([(''success'', PBool False),
       (''error'', PStr (''Simulation failed: invalid literal for int() with base 10: '' @
                        CHR 0x27 # ''1 ether'' @ [CHR 0x27])),
       (''chain_id'', PInt 1)], [])"
proof -
  have n: "str_nat 10 = ''10''" by code_simp
  have p: "parse_quantity ''1 ether'' =
      Inl (''invalid literal for int() with base 10: '' @ CHR 0x27 # ''1 ether'' @ [CHR 0x27])"
    by (simp add: py_int_defs py_string_defs invalid_literal_def n py_repr_def
        repr_char_def Let_def)
  have b: "simulate_body example_engine 1 alice usdc ''1 ether'' ''0x'' None None
     = (Inl (''invalid literal for int() with base 10: '' @ CHR 0x27 # ''1 ether'' @
             [CHR 0x27]), [])"
    by (simp add: simulate_body_def mainnet_instance normalize_alice normalize_usdc
        build_tx_def p)
  have s: "snd (simulate_transaction example_engine 1 alice usdc ''1 ether'' ''0x'' None None) = []"
    by (simp add: simulate_transaction_def b)
  from simulate_transaction_never_raises [of example_engine 1 alice usdc "''1 ether''" "''0x''" None None]
    b s show ?thesis
    by (simp add: prod_eq_iff)
qed






text \<open>
  C4 (as amended).  On a supported chain, when the sender or the recipient address,
  after \<^verbatim>\<open>strip()\<close> has removed the whitespace around it, does not start with \<^verbatim>\<open>0x\<close> or
  is not 42 characters long, the result is \<^verbatim>\<open>success = False\<close> with the invalid-address
  error naming the stripped address (the sender's if that one is malformed), and no
  query is issued.
\<close>

theorem malformed_address_rejected:
  assumes "w3_instances self chain_id = Some w"
    and "\<not> (startswith (strip fa) ''0x'' \<and> length (strip fa) = 42) \<or>
         \<not> (startswith (strip ta) ''0x'' \<and> length (strip ta) = 42)"
  shows "simulate_transaction self chain_id fa ta v d g gp =
     ([(''success'', PBool False),
       (''error'', PStr (''Invalid address: Invalid address format: '' @
          (if startswith (strip fa) ''0x'' \<and> length (strip fa) = 42
           then strip ta else strip fa))),
       (''chain_id'', PInt chain_id)], [])"
proof (cases "startswith (strip fa) ''0x'' \<and> length (strip fa) = 42")
  case True
  then have f: "normalize_address fa = Inr (strip fa)"
    by (simp add: normalize_address_def)
  from True assms(2) have "normalize_address ta = Inl (''Invalid address format: '' @ strip ta)"
    by (auto simp: normalize_address_def)
  from simulate_bad_to [OF assms(1) f this] True show ?thesis by simp
next
  case False
  then have "normalize_address fa = Inl (''Invalid address format: '' @ strip fa)"
    by (auto simp: normalize_address_def)
  from simulate_bad_from [OF assms(1) this] False show ?thesis by auto
qed

theorem malformed_address_rejected_witness:
  "w3_instances example_engine 1 = Some mainnet_node \<and>
   length (strip ''0x742d35Cc6634C0532925a3b844Bc9e7595f0bEb'') = 41 \<and>
   simulate_transaction example_engine 1 ''0x742d35Cc6634C0532925a3b844Bc9e7595f0bEb'' usdc
       ''0x0'' ''0x'' None None =
     ([(''success'', PBool False),
       (''error'', PStr
          ''Invalid address: Invalid address format: 0x742d35Cc6634C0532925a3b844Bc9e7595f0bEb''),
       (''chain_id'', PInt 1)], [])"
proof -
  have w: "w3_instances example_engine 1 = Some mainnet_node"
    by (simp add: example_defs)
  have s: "strip ''0x742d35Cc6634C0532925a3b844Bc9e7595f0bEb''
             = ''0x742d35Cc6634C0532925a3b844Bc9e7595f0bEb''"
    by (simp add: py_string_defs)
  have h: "\<not> (startswith (strip ''0x742d35Cc6634C0532925a3b844Bc9e7595f0bEb'') ''0x'' \<and>
               length (strip ''0x742d35Cc6634C0532925a3b844Bc9e7595f0bEb'') = 42) \<or>
           \<not> (startswith (strip usdc) ''0x'' \<and> length (strip usdc) = 42)"
    by (simp add: s)
  from malformed_address_rejected [OF w h, of "''0x0''" "''0x''" None None] w s
  show ?thesis by simp
qed

text \<open>
  The claim as stated fails for a sender address of 43 characters, a space followed by
  a well-formed address: it does not have the shape, yet \<^verbatim>\<open>strip()\<close> makes it valid and
  all three queries are issued.
\<close>

theorem padded_address_counterexample:
  "\<not> (startswith '' 0x742d35Cc6634C0532925a3b844Bc9e7595f0bEb1'' ''0x'' \<and>
       length '' 0x742d35Cc6634C0532925a3b844Bc9e7595f0bEb1'' = 42) \<and>
   w3_instances example_engine 1 = Some mainnet_node \<and>
   snd (simulate_transaction example_engine 1 '' 0x742d35Cc6634C0532925a3b844Bc9e7595f0bEb1''
          usdc ''0x0'' ''0x'' None None) = [EthCall, EthEstimateGas, EthGasPrice] \<and>
   map_of (fst (simulate_transaction example_engine 1
          '' 0x742d35Cc6634C0532925a3b844Bc9e7595f0bEb1'' usdc ''0x0'' ''0x'' None None))
      ''success'' = Some (PBool True) \<and>
   map_of (fst (simulate_transaction example_engine 1
          '' 0x742d35Cc6634C0532925a3b844Bc9e7595f0bEb1'' usdc ''0x0'' ''0x'' None None))
      ''error'' = Some PNone"
proof -
  have a: "normalize_address '' 0x742d35Cc6634C0532925a3b844Bc9e7595f0bEb1''
             = Inr alice"
    by (simp add: normalize_address_def py_string_defs alice_def)
  have q: "fst (run_queries mainnet_node plain_call) = (True, None, 100000, 33333400000)"
    by (simp add: run_queries_fst mainnet_node_def)
  have r: "0 \<le> (100000::int) * 33333400000" "(100000::int) * 33333400000 \<le> MAX_WEI"
    "0 \<le> (33333400000::int)" "(33333400000::int) \<le> MAX_WEI"
    "tx_value plain_call \<le> MAX_WEI"
    by (simp_all add: MAX_WEI_def plain_call_def)
  show ?thesis
    using mainnet_instance
    by (simp add: simulate_queries [OF mainnet_instance a normalize_usdc build_plain_call] q
        assemble_ok [OF r] startswith_def)
qed

text \<open>
  C5 (as amended).  On a supported chain with well-formed addresses and numbers, when
  the estimate-gas query fails and the unit conversions that follow succeed (the gas
  price and the gas cost \<open>21000 * price\<close> lie between 0 and \<open>MAX_WEI\<close>, and the value is
  at most \<open>MAX_WEI\<close>), the result has \<^verbatim>\<open>gas_used = 21000\<close> whatever the other two queries
  answer; its error is the message of the simulate-call step when that step failed with
  a non-empty message, and the gas-estimation message when that step succeeded.
\<close>

theorem gas_estimation_fallback:
  assumes "w3_instances self chain_id = Some w"
    and "normalize_address fa = Inr fa'" and "normalize_address ta = Inr ta'"
    and "build_tx fa' ta' v d g gp = Inr t"
    and "eth_estimate_gas w t = Inl gas_error"
    and "price = (case eth_gas_price w of Inr p \<Rightarrow> p | Inl e \<Rightarrow> 20000000000)"
    and "0 \<le> price" and "21000 * price \<le> MAX_WEI" and "tx_value t \<le> MAX_WEI"
  shows "map_of (fst (simulate_transaction self chain_id fa ta v d g gp)) ''gas_used''
           = Some (PInt 21000) \<and>
         (\<forall>m. eth_call w t = Inl m \<and> m \<noteq> [] \<longrightarrow>
            map_of (fst (simulate_transaction self chain_id fa ta v d g gp)) ''error''
              = Some (PStr m)) \<and>
         (\<forall>x. eth_call w t = Inr x \<longrightarrow>
            map_of (fst (simulate_transaction self chain_id fa ta v d g gp)) ''error''
              = Some (PStr (''Gas estimation failed: '' @ gas_error)))"
proof -
  have r: "0 \<le> 21000 * price" "21000 * price \<le> MAX_WEI" "0 \<le> price" "price \<le> MAX_WEI"
    using assms(7,8) by simp_all
  have g: "(21000::int) = (case eth_estimate_gas w t of Inr n \<Rightarrow> n | Inl e \<Rightarrow> 21000)"
    by (simp add: assms(5))
  from simulate_completes [OF assms(1-4) g assms(6) r assms(9)]
  obtain succ err where q: "fst (run_queries w t) = (succ, err, 21000, price)"
    and u: "map_of (fst (simulate_transaction self chain_id fa ta v d g gp)) ''gas_used''
              = Some (PInt 21000)"
    and e: "map_of (fst (simulate_transaction self chain_id fa ta v d g gp)) ''error''
              = Some (case err of None \<Rightarrow> PNone | Some m \<Rightarrow> PStr m)"
    by auto
  from q have "err =
    (case eth_call w t of
       Inr x \<Rightarrow> Some (''Gas estimation failed: '' @ gas_error)
     | Inl m \<Rightarrow> if m = [] then Some (''Gas estimation failed: '' @ gas_error) else Some m)"
    by (simp add: run_queries_fst assms(5))
  with u e show ?thesis by auto
qed

theorem gas_estimation_fallback_witness:
  "eth_estimate_gas reverting_node polygon_transfer = Inl ''execution reverted'' \<and>
   eth_call reverting_node polygon_transfer = Inl ''execution reverted'' \<and>
   map_of (fst (simulate_transaction example_engine 137 alice usdc ''0x989680'' ''0x'' None None))
     ''gas_used'' = Some (PInt 21000) \<and>
   map_of (fst (simulate_transaction example_engine 137 alice usdc ''0x989680'' ''0x'' None None))
     ''error'' = Some (PStr ''execution reverted'')"
proof -
  have e: "eth_estimate_gas reverting_node polygon_transfer = Inl ''execution reverted''"
    and c: "eth_call reverting_node polygon_transfer = Inl ''execution reverted''"
    and p: "(20000000000::int) =
              (case eth_gas_price reverting_node of Inr p \<Rightarrow> p | Inl e \<Rightarrow> 20000000000)"
    by (simp_all add: reverting_node_def)
  have r: "0 \<le> (20000000000::int)" "21000 * (20000000000::int) \<le> MAX_WEI"
    "tx_value polygon_transfer \<le> MAX_WEI"
    by (simp_all add: MAX_WEI_def polygon_transfer_def)
  from gas_estimation_fallback [OF polygon_instance normalize_alice normalize_usdc
      build_polygon_transfer e p r] e c
  show ?thesis by simp
qed

text \<open>
  The claim as stated fails for the value \<open>2 ^ 256\<close>: every query of the node fails, the
  fallback of 21000 is taken, and then \<^verbatim>\<open>from_wei\<close> raises in the asset-change step, so
  that the outer handler returns the three-field failure result, without \<^verbatim>\<open>gas_used\<close>.
\<close>

theorem gas_estimation_fallback_counterexample:
  "w3_instances example_engine 137 = Some reverting_node \<and>
   normalize_address alice = Inr alice \<and> normalize_address usdc = Inr usdc \<and>
   (\<forall>t. eth_estimate_gas reverting_node t = Inl ''execution reverted'') \<and>
   simulate_transaction example_engine 137 alice usdc
       ''0x10000000000000000000000000000000000000000000000000000000000000000'' ''0x''
       None None =
     ([(''success'', PBool False),
       (''error'', PStr ''Simulation failed: value must be between 1 and 2**256 - 1''),
       (''chain_id'', PInt 137)], [EthCall, EthEstimateGas, EthGasPrice]) \<and>
   map_of (fst (simulate_transaction example_engine 137 alice usdc
       ''0x10000000000000000000000000000000000000000000000000000000000000000'' ''0x''
       None None)) ''gas_used'' = None"
proof -
  have t: "build_tx alice usdc
       ''0x10000000000000000000000000000000000000000000000000000000000000000'' ''0x''
       None None = Inr \<lparr> tx_from = alice, tx_to = usdc, tx_value = 2 ^ 256, tx_data = ''0x'',
       tx_gas = None, tx_gasPrice = None \<rparr>"
    by (simp add: build_tx_def parse_optional_def py_int_defs py_string_defs)
  have a: "assemble reverting_node 137 \<lparr> tx_from = alice, tx_to = usdc, tx_value = 2 ^ 256,
       tx_data = ''0x'', tx_gas = None, tx_gasPrice = None \<rparr> ''0x''
       (fst (run_queries reverting_node \<lparr> tx_from = alice, tx_to = usdc, tx_value = 2 ^ 256,
       tx_data = ''0x'', tx_gas = None, tx_gasPrice = None \<rparr>))
       = Inl ''value must be between 1 and 2**256 - 1''"
    by (simp add: run_queries_fst reverting_node_def assemble_def Let_def from_wei_def
        MAX_WEI_def analyze_asset_changes_def)
  have e: "\<forall>t. eth_estimate_gas reverting_node t = Inl ''execution reverted''"
    by (simp add: reverting_node_def)
  show ?thesis
    unfolding simulate_queries [OF polygon_instance normalize_alice normalize_usdc t] a
    using polygon_instance normalize_alice normalize_usdc e by simp
qed




text \<open>
  C7 (as amended).  When the numbers of a request are accepted, the value of the payload
  is non-negative if the raw string starts with \<^verbatim>\<open>0x\<close>, and more generally unless the
  string, stripped of whitespace, starts with a minus sign; and every asset change that
  is emitted has strictly positive amounts.
\<close>

theorem payload_value_sign:
  assumes "build_tx fa ta v d g gp = Inr t"
  shows "(startswith v ''0x'' \<longrightarrow> 0 \<le> tx_value t) \<and>
         (\<not> startswith (strip v) ''-'' \<longrightarrow> 0 \<le> tx_value t) \<and>
         (\<forall>cs. analyze_asset_changes w (tx_from t) (tx_to t) (tx_value t) d = Inr cs \<longrightarrow>
            (\<forall>c \<in> set cs. 0 < amount_wei c \<and> 0 < amount_eth c))"
proof -
  from build_tx_fields(3) [OF assms] have p: "parse_quantity v = Inr (tx_value t)" .
  have a: "\<not> startswith (strip v) ''-'' \<longrightarrow> 0 \<le> tx_value t"
    using parse_quantity_sign [OF p] by simp
  have b: "startswith v ''0x'' \<longrightarrow> 0 \<le> tx_value t"
    using parse_quantity_0x [OF p] by simp
  have c: "\<forall>cs. analyze_asset_changes w (tx_from t) (tx_to t) (tx_value t) d = Inr cs \<longrightarrow>
            (\<forall>c \<in> set cs. 0 < amount_wei c \<and> 0 < amount_eth c)"
    by (auto simp: analyze_asset_changes_def from_wei_def amount_eth_pos split: if_splits)
  from a b c show ?thesis by blast
qed

theorem payload_value_sign_witness:
  "build_tx alice usdc ''0x989680'' ''0x'' None None = Inr polygon_transfer \<and>
   startswith ''0x989680'' ''0x'' \<and>
   tx_value polygon_transfer = 10000000 \<and>
   0 \<le> tx_value polygon_transfer \<and>
   analyze_asset_changes reverting_node alice usdc 10000000 ''0x'' =
     Inr [\<lparr> asset_type = ''NATIVE'', change_type = ''TRANSFER'', ac_from = alice,
            ac_to = usdc, amount_wei = 10000000,
            amount_eth = to_float (1 / 100000000000), symbol = ''ETH'' \<rparr>] \<and>
   0 < to_float (1 / 100000000000)"
proof -
  have s: "startswith ''0x989680'' ''0x''" by (simp add: startswith_def)
  have v: "tx_value polygon_transfer = 10000000" by (simp add: polygon_transfer_def)
  have c: "analyze_asset_changes reverting_node alice usdc 10000000 ''0x'' =
     Inr [\<lparr> asset_type = ''NATIVE'', change_type = ''TRANSFER'', ac_from = alice,
            ac_to = usdc, amount_wei = 10000000,
            amount_eth = to_float (1 / 100000000000), symbol = ''ETH'' \<rparr>]"
    by (simp add: analyze_asset_changes_def from_wei_def MAX_WEI_def)
  from payload_value_sign [OF build_polygon_transfer, of reverting_node] s v c
    build_polygon_transfer
  show ?thesis by (simp add: polygon_transfer_def)
qed

text \<open>
  The claim as stated fails for the decimal string \<^verbatim>\<open>-5\<close>: it is accepted, and the value
  of the payload is \<open>- 5\<close>.
\<close>

theorem negative_value_counterexample:
  "build_tx alice usdc ''-5'' ''0x'' None None =
     Inr \<lparr> tx_from = alice, tx_to = usdc, tx_value = - 5, tx_data = ''0x'',
           tx_gas = None, tx_gasPrice = None \<rparr>"
  by (simp add: build_tx_def parse_optional_def py_int_defs py_string_defs)







text \<open>
  C10.  The warnings are a subsequence of the five messages in their fixed order:
  failure, high gas usage, high cost, extreme cost, no transfers.
\<close>

theorem warnings_fixed_order:
  "subseq (generate_warnings success gas_estimate gas_cost_usd asset_changes)
     [WillFail, HighGasUsage gas_estimate, HighGasCost gas_cost_usd, ExtremeGasCost,
      NoTransfers]"
  by (simp add: generate_warnings_def)

end
